theory Spec2Isabelle
  imports Complex_Main "HOL-Library.Multiset"
begin

section \<open>Arrays and errors\<close>

text \<open>
  A two-dimensional numeric array (a NumPy \<open>ndarray\<close>, the \<open>.values\<close> of a pandas
  \<open>DataFrame\<close>) is the list of its rows. A column vector of shape \<open>(n, 1)\<close> is a list
  of \<open>n\<close> rows with one entry each. Floating-point entries are real numbers; where a
  property depends on the rounding of an arithmetic operation, the rounding is a
  parameter.
\<close>

type_synonym ndarray = "real list list"

datatype error = IndexError | KeyError | ShapeMismatch | ConfigError

definition has_shape :: "nat \<times> nat \<Rightarrow> ndarray \<Rightarrow> bool" where
  "has_shape s a = (length a = fst s \<and> list_all (\<lambda>row. length row = snd s) a)"

section \<open>The notebook: normalisation and reshaping\<close>

text \<open>
  \<^verbatim>\<open>X_train_normalize = [x/255.0 for x in X_train]\<close>

  Every \<open>x\<close> is one image, a row of raw pixel values; the division is elementwise. The
  quotient of a pixel by \<open>255.0\<close> is a float: \<open>rnd\<close> is the rounding of that division
  to the float format (the identity for exact arithmetic).
\<close>

definition normalize_pixel :: "(real \<Rightarrow> real) \<Rightarrow> nat \<Rightarrow> real" where
  "normalize_pixel rnd v = rnd (real v / 255)"

definition X_train_normalize :: "(real \<Rightarrow> real) \<Rightarrow> nat list list \<Rightarrow> real list list" where
  "X_train_normalize rnd X_train = map (\<lambda>x. map (normalize_pixel rnd) x) X_train"

text \<open>
  The reshaping loop:
  \<^verbatim>\<open>
  num_rows = X.shape[0]
  training_data = [None]*num_rows
  for i in range(num_rows):
      tmp_x = pd.DataFrame(X.iloc[i]).values
      tmp_y = pd.DataFrame(np.zeros(10)).values
      tmp_y[y[i]] = y[i]
      training_data[i] = (tmp_x, tmp_y)
  \<close>
  \<open>X\<close> is the table of feature rows and \<open>y\<close> the series of class labels (unsigned
  integers). \<open>y[i]\<close> raises \<open>KeyError\<close> when the series has no entry \<open>i\<close>, and the
  assignment into \<open>tmp_y\<close> raises \<open>IndexError\<close> when the label is not an index of the
  ten rows. The progress output of the loop is not modelled.
\<close>

text \<open>\<^verbatim>\<open>pd.DataFrame(row).values\<close>: the row as an array of shape \<open>(len(row), 1)\<close>.\<close>

definition column_values :: "real list \<Rightarrow> ndarray" where
  "column_values row = map (\<lambda>v. [v]) row"

text \<open>\<^verbatim>\<open>pd.DataFrame(np.zeros(n)).values\<close>: the zero array of shape \<open>(n, 1)\<close>.\<close>

definition zeros_column :: "nat \<Rightarrow> ndarray" where
  "zeros_column n = column_values (replicate n 0)"

text \<open>\<^verbatim>\<open>y[i]\<close> on a series with the index \<open>0 .. len(y) - 1\<close>.\<close>

definition series_get :: "nat list \<Rightarrow> nat \<Rightarrow> error + nat" where
  "series_get y i = (if i < length y then Inr (y ! i) else Inl KeyError)"

text \<open>
  \<^verbatim>\<open>a[k] = v\<close> on a two-dimensional array with an unsigned index: the scalar is
  broadcast over row \<open>k\<close>.
\<close>

definition setitem :: "ndarray \<Rightarrow> nat \<Rightarrow> real \<Rightarrow> error + ndarray" where
  "setitem a k v =
     (if k < length a then Inr (a[k := map (\<lambda>_. v) (a ! k)]) else Inl IndexError)"

type_synonym example = "ndarray \<times> ndarray"

definition tmp_y :: "nat \<Rightarrow> error + ndarray" where
  "tmp_y c = setitem (zeros_column 10) c (real c)"

fun reshape_loop ::
  "nat list \<Rightarrow> real list list \<Rightarrow> nat list \<Rightarrow> example option list \<Rightarrow> error + example option list"
where
  "reshape_loop [] X y training_data = Inr training_data"
| "reshape_loop (i # rest) X y training_data =
     (case series_get y i of
        Inl e \<Rightarrow> Inl e
      | Inr c \<Rightarrow>
          (case tmp_y c of
             Inl e \<Rightarrow> Inl e
           | Inr ty \<Rightarrow>
               reshape_loop rest X y
                 (training_data[i := Some (column_values (X ! i), ty)])))"

definition training_data :: "real list list \<Rightarrow> nat list \<Rightarrow> error + example option list" where
  "training_data X y =
     (let num_rows = length X
      in reshape_loop [0..<num_rows] X y (replicate num_rows None))"

text \<open>\<^verbatim>\<open>net = network.Network([784, 30, 10])\<close>: the layer sizes of the notebook's network.\<close>

definition net_sizes :: "nat list" where
  "net_sizes = [784, 30, 10]"


section \<open>The network engine\<close>

text \<open>
  The notebook imports the module \<open>network\<close> (\<^verbatim>\<open>import network\<close>,
  \<^verbatim>\<open>net = network.Network([784, 30, 10])\<close>, \<^verbatim>\<open>res = net.SGD(training_data, learning_rate=3.0)\<close>);
  the module itself, \<open>network.py\<close>, is not among the sources. The definitions of this
  section are therefore written from the specification of the engine.

  A column vector of shape \<open>(n, 1)\<close> is the list of its \<open>n\<close> entries, a weight
  matrix is the list of its rows. Every operation of the network is a function of the
  network's state that returns its result together with the state it leaves.
\<close>

text \<open>
  Modelled from the spec: a column vector of the absent \<open>network.py\<close> (an input, a
  target, an activation, a bias vector, an error \<open>\<delta>\<close>), by its entries.
\<close>

type_synonym vec = "real list"

text \<open>
  Modelled from the spec: an Example of section 3, the pair \<open>(x, y)\<close> of the input
  activations and the target activations.
\<close>

type_synonym labelled = "vec \<times> vec"

text \<open>
  Modelled from the spec: the class \<open>Network\<close> of the absent \<open>network.py\<close>, section 3:
  the layer sizes, and for each layer \<open>l\<close> in \<open>1..L-1\<close> a weight matrix and a bias
  vector. Entry \<open>l - 1\<close> of \<open>weights\<close> and of \<open>biases\<close> belongs to layer \<open>l\<close>.
\<close>

record network =
  sizes :: "nat list"
  weights :: "ndarray list"
  biases :: "vec list"

text \<open>
  Modelled from the spec: absent \<open>network.py\<close>, section 3, LayerSizes: an ordered
  sequence of positive integers of length at least 2.
\<close>

definition valid_sizes :: "nat list \<Rightarrow> bool" where
  "valid_sizes szs = (2 \<le> length szs \<and> list_all (\<lambda>n. 0 < n) szs)"

text \<open>
  Modelled from the spec: absent \<open>network.py\<close>, the shape invariant of sections 3 and 8:
  weight matrix \<open>l\<close> has shape \<open>(sizes[l], sizes[l-1])\<close> and bias vector \<open>l\<close> has
  shape \<open>(sizes[l], 1)\<close>, for every layer \<open>l\<close> in \<open>1..L-1\<close>.
\<close>

definition shape_invariant :: "network \<Rightarrow> bool" where
  "shape_invariant net =
     (length (weights net) = length (sizes net) - 1 \<and>
      length (biases net) = length (sizes net) - 1 \<and>
      list_all
        (\<lambda>l. has_shape (sizes net ! l, sizes net ! (l - 1)) (weights net ! (l - 1)) \<and>
             length (biases net ! (l - 1)) = sizes net ! l)
        [1..<length (sizes net)])"

subsection \<open>Construction\<close>

text \<open>
  Modelled from the spec: the random source of the constructor of the absent
  \<open>network.py\<close>, section 4.1: the sequence \<open>g\<close> of the independent standard-normal
  draws. \<open>drop_draws n g\<close> is the sequence after \<open>n\<close> draws have been taken.
\<close>

definition drop_draws :: "nat \<Rightarrow> (nat \<Rightarrow> real) \<Rightarrow> (nat \<Rightarrow> real)" where
  "drop_draws n g = (\<lambda>k. g (k + n))"

text \<open>
  Modelled from the spec: a bias vector of \<open>n\<close> entries of the absent \<open>network.py\<close>,
  filled with the next \<open>n\<close> draws.
\<close>

definition randn_vector :: "(nat \<Rightarrow> real) \<Rightarrow> nat \<Rightarrow> vec" where
  "randn_vector g n = map g [0..<n]"

text \<open>
  Modelled from the spec: a weight matrix of shape \<open>(r, c)\<close> of the absent
  \<open>network.py\<close>, filled row by row with the next \<open>r * c\<close> draws.
\<close>

definition randn_matrix :: "(nat \<Rightarrow> real) \<Rightarrow> nat \<Rightarrow> nat \<Rightarrow> ndarray" where
  "randn_matrix g r c = map (\<lambda>i. map (\<lambda>j. g (i * c + j)) [0..<c]) [0..<r]"

text \<open>
  Modelled from the spec: the allocation of the Parameters by the constructor of the
  absent \<open>network.py\<close>, section 4.1: for each pair of neighbouring sizes \<open>m, n\<close> a
  weight matrix of shape \<open>(n, m)\<close> and a bias vector of \<open>n\<close> entries, every entry a
  draw of its own.
\<close>

fun init_layers :: "(nat \<Rightarrow> real) \<Rightarrow> nat list \<Rightarrow> (ndarray \<times> vec) list" where
  "init_layers g (m # n # rest) =
     (randn_matrix g n m, randn_vector (drop_draws (n * m) g) n)
       # init_layers (drop_draws (n * m + n) g) (n # rest)"
| "init_layers g [m] = []"
| "init_layers g [] = []"

text \<open>
  Modelled from the spec: the constructor \<open>Network(sizes)\<close> of the absent
  \<open>network.py\<close>, section 4.1.
\<close>

definition Network :: "nat list \<Rightarrow> (nat \<Rightarrow> real) \<Rightarrow> network" where
  "Network szs g =
     (let layers = init_layers g szs
      in \<lparr>sizes = szs, weights = map fst layers, biases = map snd layers\<rparr>)"

subsection \<open>Vector and matrix arithmetic\<close>

text \<open>
  The arithmetic that the formulas of section 4.1 of the spec use, on arrays whose
  shapes agree.
\<close>

text \<open>
  Modelled from the spec: the product \<open>W\<cdot>a\<close> of a matrix and a column vector, as the
  absent \<open>network.py\<close> uses it.
\<close>

definition dot_mv :: "ndarray \<Rightarrow> vec \<Rightarrow> vec" where
  "dot_mv w a = map (\<lambda>row. sum_list (map2 (*) row a)) w"

text \<open>
  Modelled from the spec: the number of columns of a matrix of the absent
  \<open>network.py\<close>, read off its first row.
\<close>

definition ncols :: "ndarray \<Rightarrow> nat" where
  "ncols w = (case w of [] \<Rightarrow> 0 | row # _ \<Rightarrow> length row)"

text \<open>
  Modelled from the spec: the transpose \<open>W\<^sup>T\<close> of step 3 of \<open>backprop\<close> in the absent
  \<open>network.py\<close>.
\<close>

definition transpose_m :: "ndarray \<Rightarrow> ndarray" where
  "transpose_m w = map (\<lambda>j. map (\<lambda>row. row ! j) w) [0..<ncols w]"

text \<open>
  Modelled from the spec: the product \<open>\<delta>\<cdot>a\<^sup>T\<close> of a column and a row, step 4 of
  \<open>backprop\<close> in the absent \<open>network.py\<close>.
\<close>

definition outer :: "vec \<Rightarrow> vec \<Rightarrow> ndarray" where
  "outer d a = map (\<lambda>di. map (\<lambda>aj. di * aj) a) d"

text \<open>
  Modelled from the spec: the elementwise sum of two column vectors of the absent
  \<open>network.py\<close>.
\<close>

definition vadd :: "vec \<Rightarrow> vec \<Rightarrow> vec" where
  "vadd a b = map2 (+) a b"

text \<open>
  Modelled from the spec: the elementwise difference of two column vectors of the
  absent \<open>network.py\<close>.
\<close>

definition vsub :: "vec \<Rightarrow> vec \<Rightarrow> vec" where
  "vsub a b = map2 (-) a b"

text \<open>
  Modelled from the spec: the elementwise product \<open>\<odot>\<close> of steps 2 and 3 of \<open>backprop\<close>
  in the absent \<open>network.py\<close>.
\<close>

definition hadamard :: "vec \<Rightarrow> vec \<Rightarrow> vec" where
  "hadamard a b = map2 (*) a b"

text \<open>
  Modelled from the spec: the product of a scalar and a column vector, in the update
  of the absent \<open>network.py\<close>.
\<close>

definition vscale :: "real \<Rightarrow> vec \<Rightarrow> vec" where
  "vscale c a = map (\<lambda>v. c * v) a"

text \<open>
  Modelled from the spec: the elementwise sum of two matrices, in the gradient
  accumulator of the absent \<open>network.py\<close>.
\<close>

definition madd :: "ndarray \<Rightarrow> ndarray \<Rightarrow> ndarray" where
  "madd a b = map2 vadd a b"

text \<open>
  Modelled from the spec: the elementwise difference of two matrices, in the update of
  the absent \<open>network.py\<close>.
\<close>

definition msub :: "ndarray \<Rightarrow> ndarray \<Rightarrow> ndarray" where
  "msub a b = map2 vsub a b"

text \<open>
  Modelled from the spec: the product of a scalar and a matrix, in the update of the
  absent \<open>network.py\<close>.
\<close>

definition mscale :: "real \<Rightarrow> ndarray \<Rightarrow> ndarray" where
  "mscale c a = map (vscale c) a"

text \<open>
  Modelled from the spec: the activation of the absent \<open>network.py\<close>, section 4.1 and
  the glossary: the logistic sigmoid \<open>1/(1+e^-z)\<close>.
\<close>

definition sigmoid :: "real \<Rightarrow> real" where
  "sigmoid z = 1 / (1 + exp (- z))"

text \<open>
  Modelled from the spec: the derivative of the activation of the absent
  \<open>network.py\<close>, section 4.1: \<open>\<sigma>'(z) = \<sigma>(z)(1-\<sigma>(z))\<close>.
\<close>

definition sigmoid_prime :: "real \<Rightarrow> real" where
  "sigmoid_prime z = sigmoid z * (1 - sigmoid z)"

subsection \<open>Forward evaluation\<close>

text \<open>
  Modelled from the spec: the layers of \<open>feedforward\<close> of the absent \<open>network.py\<close>,
  section 4.1: for each layer in order \<open>a' = \<sigma>(W\<cdot>a + b)\<close>; the result is the
  activation of the final layer.
\<close>

fun feedforward_layers :: "ndarray list \<Rightarrow> vec list \<Rightarrow> vec \<Rightarrow> vec" where
  "feedforward_layers (w # ws) (b # bs) a =
     feedforward_layers ws bs (map sigmoid (vadd (dot_mv w a) b))"
| "feedforward_layers ws bs a = a"

text \<open>
  Modelled from the spec: \<open>feedforward(x)\<close> of the absent \<open>network.py\<close>, section 4.1,
  starting from \<open>a = x\<close> with the current Parameters. It returns the output and the
  state of the network.
\<close>

definition feedforward :: "vec \<Rightarrow> network \<Rightarrow> vec \<times> network" where
  "feedforward x net = (feedforward_layers (weights net) (biases net) x, net)"

subsection \<open>Backpropagation\<close>

text \<open>
  Modelled from the spec: \<open>backprop\<close> of the absent \<open>network.py\<close>, section 4.1. For the
  layers from \<open>l\<close> on, given the activation \<open>a\<close> that enters layer \<open>l\<close>, the recursion
  computes \<open>z\<^sub>l = W\<^sub>l\<cdot>a + b\<^sub>l\<close> and the activation \<open>\<sigma>(z\<^sub>l)\<close> on the way in (step 1)
  and on the way out the pair of the gradients of these layers and the vector the
  layer before multiplies with \<open>\<sigma>'(z)\<close>: behind the last layer that vector is
  \<open>a\<^sub>L - y\<close>, so \<open>\<delta>\<^sub>L = (a\<^sub>L - y) \<odot> \<sigma>'(z\<^sub>L)\<close> (step 2); behind layer \<open>l\<close> it is
  \<open>W\<^sub>l\<^sup>T\<cdot>\<delta>\<^sub>l\<close>, so \<open>\<delta>\<^sub>l = (W\<^sub>l\<^sub>+\<^sub>1\<^sup>T\<cdot>\<delta>\<^sub>l\<^sub>+\<^sub>1) \<odot> \<sigma>'(z\<^sub>l)\<close> (step 3); the
  gradients of layer \<open>l\<close> are \<open>\<delta>\<^sub>l\<cdot>a\<^sup>T\<close> and \<open>\<delta>\<^sub>l\<close> (step 4). The vector behind the
  first layer has no layer before it and is not used.
\<close>

fun backprop_layers ::
  "ndarray list \<Rightarrow> vec list \<Rightarrow> vec \<Rightarrow> vec \<Rightarrow> (ndarray \<times> vec) list \<times> vec"
where
  "backprop_layers (w # ws) (b # bs) a y =
     (let z = vadd (dot_mv w a) b;
          (grads, back) = backprop_layers ws bs (map sigmoid z) y;
          delta = hadamard back (map sigmoid_prime z)
      in ((outer delta a, delta) # grads, dot_mv (transpose_m w) delta))"
| "backprop_layers ws bs a y = ([], vsub a y)"

text \<open>
  Modelled from the spec: \<open>backprop(x, y)\<close> of the absent \<open>network.py\<close>, section 4.1,
  with its guard: it fails with \<open>ShapeMismatch\<close> if the length of \<open>x\<close> or of \<open>y\<close>
  does not match the input layer size \<open>sizes[0]\<close> or the output layer size
  \<open>sizes[-1]\<close>. The result is the pair \<open>(\<nabla>W, \<nabla>b)\<close>; the state is left as it is.
\<close>

definition backprop ::
  "vec \<Rightarrow> vec \<Rightarrow> network \<Rightarrow> (error + ndarray list \<times> vec list) \<times> network"
where
  "backprop x y net =
     (if length x \<noteq> hd (sizes net) \<or> length y \<noteq> last (sizes net)
      then (Inl ShapeMismatch, net)
      else (let grads = fst (backprop_layers (weights net) (biases net) x y)
            in (Inr (map fst grads, map snd grads), net)))"

subsection \<open>The update of a mini-batch\<close>

text \<open>
  Modelled from the spec: the GradientAccumulator of section 3 at the start of a batch
  in the absent \<open>network.py\<close>: zero, in the shape of a bias vector.
\<close>

definition zeros_like_v :: "vec \<Rightarrow> vec" where
  "zeros_like_v b = map (\<lambda>_. 0) b"

text \<open>
  Modelled from the spec: the GradientAccumulator of section 3 at the start of a batch
  in the absent \<open>network.py\<close>: zero, in the shape of a weight matrix.
\<close>

definition zeros_like_m :: "ndarray \<Rightarrow> ndarray" where
  "zeros_like_m w = map zeros_like_v w"

text \<open>
  Modelled from the spec: the sum of the gradients over a batch in \<open>update_mini_batch\<close>
  of the absent \<open>network.py\<close>, section 4.1: the gradients that \<open>backprop\<close> returns for
  every example are added to the accumulator; a failure of \<open>backprop\<close> ends the batch.
\<close>

fun sum_gradients ::
  "labelled list \<Rightarrow> ndarray list \<times> vec list \<Rightarrow> network \<Rightarrow> error + ndarray list \<times> vec list"
where
  "sum_gradients [] acc net = Inr acc"
| "sum_gradients ((x, y) # batch) (nabla_w, nabla_b) net =
     (case fst (backprop x y net) of
        Inl e \<Rightarrow> Inl e
      | Inr (delta_nabla_w, delta_nabla_b) \<Rightarrow>
          sum_gradients batch
            (map2 madd nabla_w delta_nabla_w, map2 vadd nabla_b delta_nabla_b) net)"

text \<open>
  Modelled from the spec: \<open>update_mini_batch(batch, learning_rate)\<close> of the absent
  \<open>network.py\<close>, section 4.1: the gradients are summed from a zero accumulator, then
  \<open>W \<leftarrow> W - (learning_rate/|batch|)\<cdot>\<Sigma>W_grad\<close> and the same for \<open>b\<close>. A failure of
  \<open>backprop\<close> ends the batch before any Parameter is written. The spec does not say
  what an empty batch does; the trainer passes none (\<open>mini_batches_nonempty\<close> below).
\<close>

definition update_mini_batch :: "labelled list \<Rightarrow> real \<Rightarrow> network \<Rightarrow> (error + unit) \<times> network" where
  "update_mini_batch batch learning_rate net =
     (case sum_gradients batch
             (map zeros_like_m (weights net), map zeros_like_v (biases net)) net of
        Inl e \<Rightarrow> (Inl e, net)
      | Inr (nabla_w, nabla_b) \<Rightarrow>
          (Inr (),
           net\<lparr>weights :=
                 map2 (\<lambda>w nw. msub w (mscale (learning_rate / real (length batch)) nw))
                   (weights net) nabla_w,
               biases :=
                 map2 (\<lambda>b nb. vsub b (vscale (learning_rate / real (length batch)) nb))
                   (biases net) nabla_b\<rparr>))"

subsection \<open>The trainer\<close>

text \<open>
  Modelled from the spec: step 2 of an epoch of \<open>train\<close> in the absent \<open>network.py\<close>,
  section 4.2: the consecutive mini-batches of size \<open>k\<close> of a list; the last may be
  smaller.
\<close>

definition mini_batches :: "nat \<Rightarrow> 'a list \<Rightarrow> 'a list list" where
  "mini_batches k xs = map (\<lambda>j. take k (drop (j * k) xs)) [0..<(length xs + k - 1) div k]"

text \<open>
  Modelled from the spec: step 3 of an epoch of \<open>train\<close> in the absent \<open>network.py\<close>,
  section 4.2: \<open>update_mini_batch\<close> for each mini-batch in turn; a failure ends the
  epoch in the state reached.
\<close>

fun run_batches :: "labelled list list \<Rightarrow> real \<Rightarrow> network \<Rightarrow> (error + unit) \<times> network" where
  "run_batches [] learning_rate net = (Inr (), net)"
| "run_batches (batch # rest) learning_rate net =
     (case update_mini_batch batch learning_rate net of
        (Inl e, net') \<Rightarrow> (Inl e, net')
      | (Inr u, net') \<Rightarrow> run_batches rest learning_rate net')"

text \<open>
  Modelled from the spec: the epochs of \<open>train\<close> in the absent \<open>network.py\<close>, section
  4.2: in epoch \<open>e\<close> the training set is shuffled and cut into mini-batches, and every
  mini-batch updates the network. The random order of epoch \<open>e\<close> is the parameter
  \<open>shuffle e\<close>, applied to the set as it was supplied.
\<close>

fun run_epochs ::
  "nat list \<Rightarrow> (nat \<Rightarrow> labelled list \<Rightarrow> labelled list) \<Rightarrow> labelled list \<Rightarrow> nat \<Rightarrow> real
     \<Rightarrow> network \<Rightarrow> (error + unit) \<times> network"
where
  "run_epochs [] shuffle training_set k learning_rate net = (Inr (), net)"
| "run_epochs (e # rest) shuffle training_set k learning_rate net =
     (case run_batches (mini_batches k (shuffle e training_set)) learning_rate net of
        (Inl err, net') \<Rightarrow> (Inl err, net')
      | (Inr u, net') \<Rightarrow> run_epochs rest shuffle training_set k learning_rate net')"

text \<open>
  Modelled from the spec: \<open>train\<close> of section 4.2, the method \<open>SGD\<close> of the absent
  \<open>network.py\<close>. The hyperparameters are checked first (sections 4.2 and 7): a
  \<open>ConfigError\<close> for an empty training set, a mini-batch size below 1 or above the size
  of the training set, or a learning rate that is not positive. Then the epochs
  \<open>1..epochs\<close> run. The result is the output activation of the network, after the
  final epoch, for every example of the set as it was supplied, in its order. The
  optional report of the accuracy on a validation set is output only and is not
  modelled.
\<close>

definition SGD ::
  "labelled list \<Rightarrow> int \<Rightarrow> int \<Rightarrow> real \<Rightarrow> (nat \<Rightarrow> labelled list \<Rightarrow> labelled list)
     \<Rightarrow> network \<Rightarrow> (error + vec list) \<times> network"
where
  "SGD training_set epochs mini_batch_size learning_rate shuffle net =
     (if training_set = [] \<or> mini_batch_size < 1
         \<or> int (length training_set) < mini_batch_size \<or> learning_rate \<le> 0
      then (Inl ConfigError, net)
      else
        (case run_epochs [1..<Suc (nat epochs)] shuffle training_set (nat mini_batch_size)
                learning_rate net of
           (Inl e, net') \<Rightarrow> (Inl e, net')
         | (Inr u, net') \<Rightarrow>
             (Inr (map (\<lambda>(x, y). fst (feedforward x net')) training_set), net')))"

text \<open>
  Modelled from the spec: the points in training of the invariant of section 3, for
  the absent \<open>network.py\<close>: the state after construction, and the state any operation
  leaves when it starts in such a state.
\<close>

inductive reachable :: "nat list \<Rightarrow> network \<Rightarrow> bool" for szs :: "nat list" where
  constructed: "reachable szs (Network szs g)"
| after_feedforward: "reachable szs net \<Longrightarrow> reachable szs (snd (feedforward x net))"
| after_backprop: "reachable szs net \<Longrightarrow> reachable szs (snd (backprop x y net))"
| after_update_mini_batch:
    "reachable szs net \<Longrightarrow> reachable szs (snd (update_mini_batch batch learning_rate net))"
| after_SGD:
    "reachable szs net \<Longrightarrow>
     reachable szs (snd (SGD training_set epochs mini_batch_size learning_rate shuffle net))"

text \<open>
  Modelled from the spec: the shape invariant of section 3 for the absent
  \<open>network.py\<close>, by recursion over the layers, as the proofs use it: the sizes
  \<open>m, n, \<dots>\<close> go with a first weight matrix of shape \<open>(n, m)\<close> and a first bias
  vector of \<open>n\<close> entries, and the sizes from \<open>n\<close> on with the remaining layers.
\<close>

fun shapes_ok :: "nat list \<Rightarrow> ndarray list \<Rightarrow> vec list \<Rightarrow> bool" where
  "shapes_ok (m # n # rest) (w # ws) (b # bs) =
     (has_shape (n, m) w \<and> length b = n \<and> shapes_ok (n # rest) ws bs)"
| "shapes_ok [m] [] [] = True"
| "shapes_ok [] [] [] = True"
| "shapes_ok szs ws bs = False"

text \<open>
  Modelled from the spec: a state of the absent \<open>network.py\<close> with the layer sizes
  \<open>szs\<close> whose Parameters have the shapes these sizes give.
\<close>

definition net_ok :: "nat list \<Rightarrow> network \<Rightarrow> bool" where
  "net_ok szs net = (sizes net = szs \<and> shapes_ok szs (weights net) (biases net))"

section \<open>Properties of the notebook's data preparation\<close>

lemma length_zeros_column: "length (zeros_column n) = n"
  by (simp add: zeros_column_def column_values_def)

lemma nth_zeros_column: "k < n \<Longrightarrow> zeros_column n ! k = [0]"
  by (simp add: zeros_column_def column_values_def)

lemma zeros_column_replicate: "zeros_column n = replicate n [0]"
  by (simp add: zeros_column_def column_values_def)

lemma replicate_10: "replicate 10 x = [x, x, x, x, x, x, x, x, x, x]"
  by (simp add: numeral_eq_Suc)

lemma column_values_replicate: "column_values (replicate n v) = replicate n [v]"
  by (simp add: column_values_def)

lemma has_shape_target: "has_shape (10, 1) ((zeros_column 10)[c := [v]])"
  by (auto simp: has_shape_def zeros_column_replicate list_all_iff
           dest: set_update_subset_insert [THEN subsetD])

lemma has_shape_column: "length row = n \<Longrightarrow> has_shape (n, 1) (column_values row)"
  by (auto simp: has_shape_def column_values_def list_all_iff)

lemma tmp_y_eq:
  "tmp_y c = (if c < 10 then Inr ((zeros_column 10)[c := [real c]]) else Inl IndexError)"
  by (simp add: tmp_y_def setitem_def length_zeros_column nth_zeros_column)

lemma reshape_loop_ok:
  "\<forall>i\<in>set idxs. i < length y \<and> y ! i < 10 \<Longrightarrow>
   reshape_loop idxs X y td =
     Inr (fold (\<lambda>i t. t[i := Some (column_values (X ! i),
                                   (zeros_column 10)[y ! i := [real (y ! i)]])]) idxs td)"
  by (induction idxs arbitrary: td) (simp_all add: series_get_def tmp_y_eq)

lemma reshape_loop_Inr:
  "reshape_loop idxs X y td = Inr r \<Longrightarrow> \<forall>i\<in>set idxs. i < length y \<and> y ! i < 10"
  by (induction idxs arbitrary: td)
     (auto simp: series_get_def tmp_y_eq split: if_splits)

lemma length_fold_update: "length (fold (\<lambda>i t. t[i := f i]) idxs td) = length td"
  by (induction idxs arbitrary: td) simp_all

lemma nth_fold_update:
  "k < length td \<Longrightarrow>
   fold (\<lambda>i t. t[i := f i]) idxs td ! k = (if k \<in> set idxs then f k else td ! k)"
  by (induction idxs arbitrary: td) (auto simp: nth_list_update)

lemma fold_update_all:
  "fold (\<lambda>i t. t[i := f i]) [0..<n] (replicate n d) = map f [0..<n]"
  by (rule nth_equalityI) (simp_all add: length_fold_update nth_fold_update)

text \<open>
  The loop completes exactly when every row has a label that is one of the ten indices,
  and then entry \<open>i\<close> of the result is the pair built from row \<open>i\<close> and label \<open>i\<close>.
\<close>

lemma training_data_Inr_iff:
  "training_data X y = Inr td \<longleftrightarrow>
     (\<forall>i<length X. i < length y \<and> y ! i < 10) \<and>
     td = map (\<lambda>i. Some (column_values (X ! i), (zeros_column 10)[y ! i := [real (y ! i)]]))
            [0..<length X]"
proof (cases "\<forall>i<length X. i < length y \<and> y ! i < 10")
  case True
  then have "\<forall>i\<in>set [0..<length X]. i < length y \<and> y ! i < 10" by simp
  from reshape_loop_ok [OF this] True show ?thesis
    by (auto simp: training_data_def Let_def fold_update_all)
next
  case False
  have "training_data X y \<noteq> Inr td"
  proof
    assume "training_data X y = Inr td"
    then have "reshape_loop [0..<length X] X y (replicate (length X) None) = Inr td"
      by (simp add: training_data_def Let_def)
    from reshape_loop_Inr [OF this] False show False by simp
  qed
  with False show ?thesis by blast
qed

lemma training_data_single:
  "c < 10 \<Longrightarrow>
   training_data [row] [c] = Inr [Some (column_values row, (zeros_column 10)[c := [real c]])]"
  by (simp add: training_data_Inr_iff)

text \<open>
  C1. The claim: the target vector of an example with class label \<open>c\<close> is the one-hot
  encoding of \<open>c\<close>, with entry 1 at index \<open>c\<close>. The code stores the label itself: for one
  image of 784 pixels with label 3, the target has the entry 3 at index 3, not 1.
\<close>

theorem target_of_label_3_is_not_one_hot:
  "training_data [replicate 784 0] [3] =
     Inr [Some (replicate 784 [0], [[0], [0], [0], [3], [0], [0], [0], [0], [0], [0]])]
   \<and> [[0], [0], [0], [3], [0], [0], [0], [0], [0], [0]]
        \<noteq> [[0], [0], [0], [1], [0], [0], [0], [0], [0], [0::real]]"
proof -
  have "(zeros_column 10)[3 := [real 3]] = [[0], [0], [0], [3], [0], [0], [0], [0], [0], [0]]"
    by (simp add: zeros_column_replicate replicate_10)
  then show ?thesis
    using training_data_single [of 3 "replicate 784 0"]
    by (simp add: column_values_replicate)
qed

text \<open>
  C2. When every row has a label among the ten classes, the reshaping step completes, and
  the target of example \<open>i\<close> has ten rows, the value of the class index \<open>y[i]\<close> itself at
  index \<open>y[i]\<close>, and 0 at every other index.
\<close>

theorem target_holds_class_index_value:
  assumes "\<forall>i<length X. i < length y \<and> y ! i < 10"
  shows "\<exists>td. training_data X y = Inr td \<and> length td = length X \<and>
           (\<forall>i<length X. \<exists>tx ty. td ! i = Some (tx, ty) \<and> length ty = 10 \<and>
              (\<forall>k<10. ty ! k = [if k = y ! i then real (y ! i) else 0]))"
proof -
  let ?td = "map (\<lambda>i. Some (column_values (X ! i), (zeros_column 10)[y ! i := [real (y ! i)]]))
               [0..<length X]"
  have run: "training_data X y = Inr ?td"
    using assms by (simp add: training_data_Inr_iff)
  have "\<exists>tx ty. ?td ! i = Some (tx, ty) \<and> length ty = 10 \<and>
          (\<forall>k<10. ty ! k = [if k = y ! i then real (y ! i) else 0])"
    if "i < length X" for i
    using that by (simp add: length_zeros_column nth_list_update nth_zeros_column)
  with run show ?thesis by simp
qed

theorem target_holds_class_index_value_witness:
  "list_all (\<lambda>c. c < 10) [7, 2::nat] \<and>
   (\<exists>td. training_data [[0.5, 0.25], [1, 0]] [7, 2] = Inr td \<and>
      length td = length [[0.5, 0.25], [1, 0::real]] \<and>
      (\<forall>i<length [[0.5, 0.25], [1, 0::real]].
         \<exists>tx ty. td ! i = Some (tx, ty) \<and> length ty = 10 \<and>
           (\<forall>k<10. ty ! k = [if k = [7, 2] ! i then real ([7, 2] ! i) else 0])))"
proof -
  have h: "\<forall>i<length [[0.5, 0.25], [1, 0::real]]. i < length [7, 2::nat] \<and> [7, 2::nat] ! i < 10"
    by (simp add: less_Suc_eq)
  have l: "list_all (\<lambda>c. c < 10) [7, 2::nat]"
    by simp
  from l target_holds_class_index_value [OF h] show ?thesis
    by (rule conjI)
qed

text \<open>
  C3. With a rounding of the division that is monotone and exact at 0 and 1 (as
  rounding to nearest is, and as exact arithmetic is), the normalisation maps every raw
  pixel value \<open>v\<close> with \<open>v \<le> 255\<close> to the rounded quotient \<open>v / 255\<close>, image by image and
  pixel by pixel, and every normalised feature lies in the interval from 0 to 1.
\<close>

theorem normalized_features_in_unit_interval:
  assumes "mono rnd" and "rnd 0 = 0" and "rnd 1 = 1"
    and "\<forall>x\<in>set X_train. \<forall>v\<in>set x. v \<le> 255"
  shows "length (X_train_normalize rnd X_train) = length X_train \<and>
         (\<forall>i<length X_train.
            length (X_train_normalize rnd X_train ! i) = length (X_train ! i) \<and>
            (\<forall>j<length (X_train ! i).
               X_train_normalize rnd X_train ! i ! j = rnd (real (X_train ! i ! j) / 255) \<and>
               0 \<le> X_train_normalize rnd X_train ! i ! j \<and>
               X_train_normalize rnd X_train ! i ! j \<le> 1))"
proof (intro conjI allI impI)
  show "length (X_train_normalize rnd X_train) = length X_train"
    by (simp add: X_train_normalize_def)
next
  fix i assume "i < length X_train"
  then show "length (X_train_normalize rnd X_train ! i) = length (X_train ! i)"
    by (simp add: X_train_normalize_def)
next
  fix i j assume i: "i < length X_train" and j: "j < length (X_train ! i)"
  then show eq: "X_train_normalize rnd X_train ! i ! j = rnd (real (X_train ! i ! j) / 255)"
    by (simp add: X_train_normalize_def normalize_pixel_def)
  from i have "X_train ! i \<in> set X_train" by (rule nth_mem)
  moreover from j have "X_train ! i ! j \<in> set (X_train ! i)" by (rule nth_mem)
  ultimately have v: "X_train ! i ! j \<le> 255" using assms(4) by blast
  then have lo: "(0::real) \<le> real (X_train ! i ! j) / 255"
    and hi: "real (X_train ! i ! j) / 255 \<le> 1"
    by simp_all
  have "rnd 0 \<le> rnd (real (X_train ! i ! j) / 255)"
    and "rnd (real (X_train ! i ! j) / 255) \<le> rnd 1"
    by (rule monoD [OF assms(1) lo], rule monoD [OF assms(1) hi])
  then show "0 \<le> X_train_normalize rnd X_train ! i ! j"
    and "X_train_normalize rnd X_train ! i ! j \<le> 1"
    using assms(2,3) eq by simp_all
qed


theorem normalized_features_in_unit_interval_witness:
  "mono (\<lambda>x::real. x) \<and>
   list_all (list_all (\<lambda>v. v \<le> 255)) [[0, 51, 255::nat]] \<and>
   X_train_normalize (\<lambda>x. x) [[0, 51, 255]] = [[0, 1 / 5, 1]] \<and>
   X_train_normalize (\<lambda>x. x) [[0, 51, 255]] ! 0 ! 1 = real ([[0, 51, 255]] ! 0 ! 1) / 255 \<and>
   0 \<le> X_train_normalize (\<lambda>x. x) [[0, 51, 255]] ! 0 ! 1 \<and>
   X_train_normalize (\<lambda>x. x) [[0, 51, 255]] ! 0 ! 1 \<le> 1"
proof -
  have m: "mono (\<lambda>x::real. x)"
    by (simp add: mono_def)
  have r: "\<forall>x\<in>set [[0, 51, 255::nat]]. \<forall>v\<in>set x. v \<le> 255"
    by simp
  have a: "list_all (list_all (\<lambda>v. v \<le> 255)) [[0, 51, 255::nat]]"
    by simp
  have v: "X_train_normalize (\<lambda>x. x) [[0, 51, 255]] = [[0, 1 / 5, 1]]"
    by (simp add: X_train_normalize_def normalize_pixel_def)
  have p1: "0 < length [[0, 51, 255::nat]]"
    by simp
  have p2: "1 < length ([[0, 51, 255::nat]] ! 0)"
    by simp
  note t = normalized_features_in_unit_interval [of "\<lambda>x. x" "[[0, 51, 255]]", OF m refl refl r]
  note row = t [THEN conjunct2, rule_format, of 0, OF p1]
  note c = row [THEN conjunct2, rule_format, of 1, OF p2]
  show ?thesis
    by (rule conjI [OF m conjI [OF a conjI [OF v c]]])
qed

text \<open>
  C4. When every feature row has the 784 entries of a 28 by 28 image and every label is
  among the ten classes, the reshaping step completes and every example matches the
  layer sizes \<open>[784, 30, 10]\<close> of the network: the features are a column of shape
  \<open>(sizes[0], 1) = (784, 1)\<close> and the target a column of shape \<open>(sizes[-1], 1) = (10, 1)\<close>.
\<close>

theorem examples_match_network_topology:
  assumes "\<forall>i<length X. i < length y \<and> y ! i < 10"
    and "\<forall>row\<in>set X. length row = 784"
  shows "\<exists>td. training_data X y = Inr td \<and> length td = length X \<and>
           net_sizes ! 0 = 784 \<and> last net_sizes = 10 \<and>
           (\<forall>i<length X. \<exists>tx ty. td ! i = Some (tx, ty) \<and>
              has_shape (net_sizes ! 0, 1) tx \<and> has_shape (last net_sizes, 1) ty)"
proof -
  let ?td = "map (\<lambda>i. Some (column_values (X ! i), (zeros_column 10)[y ! i := [real (y ! i)]]))
               [0..<length X]"
  have run: "training_data X y = Inr ?td"
    using assms(1) by (simp add: training_data_Inr_iff)
  have sz: "net_sizes ! 0 = 784" "last net_sizes = 10"
    by (simp_all add: net_sizes_def)
  have "\<exists>tx ty. ?td ! i = Some (tx, ty) \<and>
          has_shape (net_sizes ! 0, 1) tx \<and> has_shape (last net_sizes, 1) ty"
    if "i < length X" for i
  proof -
    from that assms(2) have "length (X ! i) = 784" by simp
    then have "has_shape (784, 1) (column_values (X ! i))" by (rule has_shape_column)
    moreover have "has_shape (10, 1) ((zeros_column 10)[y ! i := [real (y ! i)]])"
      by (rule has_shape_target)
    moreover have "?td ! i = Some (column_values (X ! i), (zeros_column 10)[y ! i := [real (y ! i)]])"
      using that by simp
    ultimately show ?thesis unfolding sz by blast
  qed
  with run sz show ?thesis by simp
qed

theorem examples_match_network_topology_witness:
  "list_all (\<lambda>row. length row = 784) [replicate 784 (0.5::real)] \<and>
   (\<exists>td. training_data [replicate 784 0.5] [9] = Inr td \<and>
      length td = length [replicate 784 (0.5::real)] \<and>
      net_sizes ! 0 = 784 \<and> last net_sizes = 10 \<and>
      (\<forall>i<length [replicate 784 (0.5::real)]. \<exists>tx ty. td ! i = Some (tx, ty) \<and>
          has_shape (net_sizes ! 0, 1) tx \<and> has_shape (last net_sizes, 1) ty))"
proof -
  have h1: "\<forall>i<length [replicate 784 (0.5::real)]. i < length [9::nat] \<and> [9::nat] ! i < 10"
    by simp
  have h2: "\<forall>row\<in>set [replicate 784 (0.5::real)]. length row = 784"
    by simp
  have l: "list_all (\<lambda>row. length row = 784) [replicate 784 (0.5::real)]"
    by simp
  from l examples_match_network_topology [OF h1 h2] show ?thesis
    by (rule conjI)
qed

text \<open>
  C10. An example whose class label is 0 gets the all-zeros target: the value stored at
  index 0 is the class index 0, so the target equals the zero column the loop starts
  from, the array in which no class has been marked.
\<close>

theorem class_zero_target_is_all_zeros:
  assumes "\<forall>i<length X. i < length y \<and> y ! i < 10"
    and "i < length X" and "y ! i = 0"
  shows "\<exists>td tx. training_data X y = Inr td \<and>
           td ! i = Some (tx, [[0], [0], [0], [0], [0], [0], [0], [0], [0], [0]]) \<and>
           zeros_column 10 = [[0], [0], [0], [0], [0], [0], [0], [0], [0], [0]]"
proof -
  have z: "zeros_column 10 = [[0], [0], [0], [0], [0], [0], [0], [0], [0], [0]]"
    by (simp add: zeros_column_replicate replicate_10)
  have "(zeros_column 10)[0 := [0]] = zeros_column 10"
    by (simp add: z)
  with assms show ?thesis
    by (simp add: training_data_Inr_iff z)
qed

theorem class_zero_target_is_all_zeros_witness:
  "list_all (\<lambda>c. c < 10) [4, 0::nat] \<and> [4, 0::nat] ! 1 = 0 \<and>
   (\<exists>td tx. training_data [[0.5], [0.25]] [4, 0] = Inr td \<and>
      td ! 1 = Some (tx, [[0], [0], [0], [0], [0], [0], [0], [0], [0], [0]]) \<and>
      zeros_column 10 = [[0], [0], [0], [0], [0], [0], [0], [0], [0], [0]])"
proof -
  have h: "\<forall>i<length [[0.5], [0.25::real]]. i < length [4, 0::nat] \<and> [4, 0::nat] ! i < 10"
    by (simp add: less_Suc_eq)
  have l: "list_all (\<lambda>c. c < 10) [4, 0::nat] \<and> [4, 0::nat] ! 1 = 0"
    by simp
  have c: "\<exists>td tx. training_data [[0.5], [0.25]] [4, 0] = Inr td \<and>
      td ! 1 = Some (tx, [[0], [0], [0], [0], [0], [0], [0], [0], [0], [0]]) \<and>
      zeros_column 10 = [[0], [0], [0], [0], [0], [0], [0], [0], [0], [0]]"
    by (rule class_zero_target_is_all_zeros [OF h]) simp_all
  from l c show ?thesis by simp
qed

section \<open>Properties of the network engine\<close>

subsection \<open>Shapes of the Parameters and of the gradients\<close>

lemma shapes_ok_init_layers:
  "shapes_ok szs (map fst (init_layers g szs)) (map snd (init_layers g szs))"
  by (induction g szs rule: init_layers.induct)
     (simp_all add: has_shape_def randn_matrix_def randn_vector_def list_all_iff)

lemma shapes_ok_lengths:
  "shapes_ok szs ws bs \<Longrightarrow> length ws = length szs - 1 \<and> length bs = length szs - 1"
  by (induction szs ws bs rule: shapes_ok.induct) simp_all

lemma shapes_ok_nth:
  "shapes_ok szs ws bs \<Longrightarrow> 1 \<le> l \<Longrightarrow> l < length szs \<Longrightarrow>
   has_shape (szs ! l, szs ! (l - 1)) (ws ! (l - 1)) \<and> length (bs ! (l - 1)) = szs ! l"
proof (induction szs ws bs arbitrary: l rule: shapes_ok.induct)
  case (1 m n rest w ws b bs)
  show ?case
  proof (cases "l = 1")
    case True
    with "1.prems" show ?thesis by simp
  next
    case False
    with "1.prems" obtain l' where l: "l = Suc l'" "1 \<le> l'" "l' < length (n # rest)"
      by (cases l) auto
    from "1.prems"(1) have "shapes_ok (n # rest) ws bs" by simp
    from "1.IH" [OF this l(2,3)] l show ?thesis
      by (cases l') simp_all
  qed
qed simp_all

lemma length_dot_mv: "length (dot_mv w a) = length w"
  by (simp add: dot_mv_def)

lemma has_shape_outer: "has_shape (length d, length a) (outer d a)"
  by (simp add: has_shape_def outer_def list_all_iff)

lemma length_transpose_m: "has_shape (n, m) w \<Longrightarrow> 0 < n \<Longrightarrow> length (transpose_m w) = m"
  by (cases w) (simp_all add: has_shape_def transpose_m_def ncols_def)

lemma in_set_zip_both: "(x, y) \<in> set (zip xs ys) \<Longrightarrow> x \<in> set xs \<and> y \<in> set ys"
  by (auto dest: set_zip_leftD set_zip_rightD)

lemma has_shape_madd: "has_shape s a \<Longrightarrow> has_shape s b \<Longrightarrow> has_shape s (madd a b)"
  by (auto simp: has_shape_def madd_def vadd_def list_all_iff dest!: in_set_zip_both)

lemma has_shape_step:
  "has_shape s w \<Longrightarrow> has_shape s nw \<Longrightarrow> has_shape s (msub w (mscale c nw))"
  by (auto simp: has_shape_def msub_def mscale_def vsub_def vscale_def list_all_iff
           dest!: in_set_zip_both)

lemma has_shape_zeros_like_m: "has_shape s w \<Longrightarrow> has_shape s (zeros_like_m w)"
  by (auto simp: has_shape_def zeros_like_m_def zeros_like_v_def list_all_iff)

lemma shapes_ok_zeros_like:
  "shapes_ok szs ws bs \<Longrightarrow> shapes_ok szs (map zeros_like_m ws) (map zeros_like_v bs)"
  by (induction szs ws bs rule: shapes_ok.induct)
     (simp_all add: has_shape_zeros_like_m zeros_like_v_def)

lemma shapes_ok_map2:
  assumes "shapes_ok szs ws bs" and "shapes_ok szs ws' bs'"
    and "\<And>s a b. has_shape s a \<Longrightarrow> has_shape s b \<Longrightarrow> has_shape s (f a b)"
    and "\<And>a b. length a = length b \<Longrightarrow> length (g a b) = length a"
  shows "shapes_ok szs (map2 f ws ws') (map2 g bs bs')"
  using assms(1,2)
proof (induction szs ws bs arbitrary: ws' bs' rule: shapes_ok.induct)
  case (1 m n rest w ws b bs)
  from "1.prems"(2) obtain w' ws'' b' bs'' where e: "ws' = w' # ws''" "bs' = b' # bs''"
    by (cases ws'; cases bs') simp_all
  with "1.prems" have "shapes_ok (n # rest) ws bs" "shapes_ok (n # rest) ws'' bs''"
    by simp_all
  then have "shapes_ok (n # rest) (map2 f ws ws'') (map2 g bs bs'')"
    by (rule "1.IH")
  with "1.prems" e show ?case
    by (simp add: assms(3,4))
next
  case (2 m)
  then show ?case by (cases ws'; cases bs') simp_all
next
  case 3
  then show ?case by (cases ws'; cases bs') simp_all
qed simp_all

lemma shapes_ok_backprop_layers:
  assumes "shapes_ok szs ws bs" and "list_all (\<lambda>n. 0 < n) szs" and "szs \<noteq> []"
    and "length a = hd szs" and "length y = last szs"
  shows "shapes_ok szs (map fst (fst (backprop_layers ws bs a y)))
           (map snd (fst (backprop_layers ws bs a y)))
         \<and> length (snd (backprop_layers ws bs a y)) = hd szs"
  using assms
proof (induction szs ws bs arbitrary: a rule: shapes_ok.induct)
  case (1 m n rest w ws b bs)
  let ?z = "vadd (dot_mv w a) b"
  let ?r = "backprop_layers ws bs (map sigmoid ?z) y"
  let ?delta = "hadamard (snd ?r) (map sigmoid_prime ?z)"
  from "1.prems" have w: "has_shape (n, m) w" and b: "length b = n"
    and rest: "shapes_ok (n # rest) ws bs" and pos: "0 < n" "list_all (\<lambda>n. 0 < n) (n # rest)"
    and a: "length a = m" and y: "length y = last (n # rest)"
    by simp_all
  from w b have z: "length ?z = n"
    by (simp add: vadd_def length_dot_mv has_shape_def)
  then have "length (map sigmoid ?z) = hd (n # rest)" by simp
  from "1.IH" [OF rest pos(2) _ this y]
  have ih: "shapes_ok (n # rest) (map fst (fst ?r)) (map snd (fst ?r))" "length (snd ?r) = n"
    by simp_all
  from ih(2) z have d: "length ?delta = n"
    by (simp add: hadamard_def)
  have o: "has_shape (n, m) (outer ?delta a)"
    using has_shape_outer [of ?delta a] d a by simp
  have t: "length (dot_mv (transpose_m w) ?delta) = m"
    using length_transpose_m [OF w pos(1)] by (simp add: length_dot_mv)
  have eq: "backprop_layers (w # ws) (b # bs) a y
      = ((outer ?delta a, ?delta) # fst ?r, dot_mv (transpose_m w) ?delta)"
    by (simp add: Let_def split_beta)
  show ?case
    unfolding eq using o d t ih(1) by simp
next
  case (2 m)
  then show ?case by (simp add: vsub_def)
qed simp_all


lemma snd_feedforward: "snd (feedforward x net) = net"
  by (simp add: feedforward_def)

lemma snd_backprop: "snd (backprop x y net) = net"
  by (simp add: backprop_def Let_def)

lemma net_ok_Network: "net_ok szs (Network szs g)"
  by (simp add: net_ok_def Network_def Let_def shapes_ok_init_layers)

lemma backprop_gradient_shapes:
  assumes "valid_sizes szs" and "net_ok szs net"
    and "fst (backprop x y net) = Inr (dw, db)"
  shows "shapes_ok szs dw db"
proof -
  from assms(3) have len: "length x = hd (sizes net)" "length y = last (sizes net)"
    and g: "dw = map fst (fst (backprop_layers (weights net) (biases net) x y))"
           "db = map snd (fst (backprop_layers (weights net) (biases net) x y))"
    by (auto simp: backprop_def Let_def split: if_splits)
  from assms(1) have "list_all (\<lambda>n. 0 < n) szs" "szs \<noteq> []"
    by (auto simp: valid_sizes_def)
  with assms(2) len show ?thesis
    unfolding g net_ok_def by (simp add: shapes_ok_backprop_layers)
qed

lemma sum_gradients_shapes:
  assumes "valid_sizes szs" and "net_ok szs net"
  shows "shapes_ok szs nw nb \<Longrightarrow> sum_gradients batch (nw, nb) net = Inr (rw, rb) \<Longrightarrow>
         shapes_ok szs rw rb"
proof (induction batch arbitrary: nw nb)
  case Nil
  then show ?case by simp
next
  case (Cons ex batch)
  obtain x y where ex: "ex = (x, y)" by (cases ex)
  from Cons.prems(2) ex obtain dw db where bp: "fst (backprop x y net) = Inr (dw, db)"
    and rec: "sum_gradients batch (map2 madd nw dw, map2 vadd nb db) net = Inr (rw, rb)"
    by (auto split: sum.splits)
  from backprop_gradient_shapes [OF assms bp] have "shapes_ok szs dw db" .
  with Cons.prems(1) have "shapes_ok szs (map2 madd nw dw) (map2 vadd nb db)"
    by (rule shapes_ok_map2) (simp_all add: has_shape_madd vadd_def)
  from Cons.IH [OF this rec] show ?case .
qed

lemma sizes_update_mini_batch:
  "sizes (snd (update_mini_batch batch learning_rate net)) = sizes net"
  by (simp add: update_mini_batch_def split: sum.splits prod.splits)

lemma net_ok_update_mini_batch:
  assumes "valid_sizes szs" and "net_ok szs net"
  shows "net_ok szs (snd (update_mini_batch batch learning_rate net))"
proof (cases "sum_gradients batch (map zeros_like_m (weights net), map zeros_like_v (biases net)) net")
  case (Inl e)
  with assms(2) show ?thesis by (simp add: update_mini_batch_def)
next
  case (Inr r)
  obtain rw rb where r: "r = (rw, rb)" by (cases r)
  from assms(2) have ok: "shapes_ok szs (weights net) (biases net)" and sz: "sizes net = szs"
    by (simp_all add: net_ok_def)
  from ok have "shapes_ok szs (map zeros_like_m (weights net)) (map zeros_like_v (biases net))"
    by (rule shapes_ok_zeros_like)
  from sum_gradients_shapes [OF assms this Inr [unfolded r]] have "shapes_ok szs rw rb" .
  with ok have "shapes_ok szs
      (map2 (\<lambda>w nw. msub w (mscale (learning_rate / real (length batch)) nw)) (weights net) rw)
      (map2 (\<lambda>b nb. vsub b (vscale (learning_rate / real (length batch)) nb)) (biases net) rb)"
    by (rule shapes_ok_map2) (simp_all add: has_shape_step vsub_def vscale_def)
  with Inr r sz show ?thesis
    by (simp add: update_mini_batch_def net_ok_def)
qed

lemma net_ok_run_batches:
  assumes "valid_sizes szs"
  shows "net_ok szs net \<Longrightarrow> net_ok szs (snd (run_batches bs learning_rate net))"
proof (induction bs arbitrary: net)
  case Nil
  then show ?case by simp
next
  case (Cons b bs)
  from net_ok_update_mini_batch [OF assms Cons.prems]
  have ok: "net_ok szs (snd (update_mini_batch b learning_rate net))" .
  show ?case
  proof (cases "update_mini_batch b learning_rate net")
    case (Pair r net')
    with ok have "net_ok szs net'" by simp
    with Pair Cons.IH [of net'] show ?thesis
      by (cases r) simp_all
  qed
qed

lemma net_ok_run_epochs:
  assumes "valid_sizes szs"
  shows "net_ok szs net \<Longrightarrow>
         net_ok szs (snd (run_epochs es shuffle training_set k learning_rate net))"
proof (induction es arbitrary: net)
  case Nil
  then show ?case by simp
next
  case (Cons e es)
  let ?r = "run_batches (mini_batches k (shuffle e training_set)) learning_rate net"
  from net_ok_run_batches [OF assms Cons.prems] have ok: "net_ok szs (snd ?r)" .
  show ?case
  proof (cases ?r)
    case (Pair r net')
    with ok have "net_ok szs net'" by simp
    with Pair Cons.IH [of net'] show ?thesis
      by (cases r) simp_all
  qed
qed

lemma net_ok_SGD:
  assumes "valid_sizes szs" and "net_ok szs net"
  shows "net_ok szs (snd (SGD training_set epochs mini_batch_size learning_rate shuffle net))"
proof -
  let ?r = "run_epochs [1..<Suc (nat epochs)] shuffle training_set (nat mini_batch_size)
              learning_rate net"
  from net_ok_run_epochs [OF assms] have "net_ok szs (snd ?r)" .
  then show ?thesis
    using assms(2) by (cases ?r; cases "fst ?r") (simp_all add: SGD_def)
qed

lemma reachable_net_ok:
  assumes "valid_sizes szs"
  shows "reachable szs net \<Longrightarrow> net_ok szs net"
proof (induction rule: reachable.induct)
  case (constructed g)
  show ?case by (rule net_ok_Network)
next
  case (after_feedforward net x)
  then show ?case by (simp add: snd_feedforward)
next
  case (after_backprop net x y)
  then show ?case by (simp add: snd_backprop)
next
  case (after_update_mini_batch net batch learning_rate)
  then show ?case by (simp add: net_ok_update_mini_batch [OF assms])
next
  case (after_SGD net training_set epochs mini_batch_size learning_rate shuffle)
  then show ?case by (simp add: net_ok_SGD [OF assms])
qed

lemma net_ok_shape_invariant: "net_ok szs net \<Longrightarrow> shape_invariant net"
  unfolding net_ok_def shape_invariant_def list_all_iff
  using shapes_ok_lengths [of "sizes net" "weights net" "biases net"]
        shapes_ok_nth [of "sizes net" "weights net" "biases net"]
  by auto

subsection \<open>Training runs to completion on well-shaped examples\<close>

lemma fst_backprop_ok:
  "length x = hd (sizes net) \<Longrightarrow> length y = last (sizes net) \<Longrightarrow>
   \<exists>g. fst (backprop x y net) = Inr g"
  by (simp add: backprop_def Let_def)

lemma sum_gradients_ok:
  "\<forall>(x, y)\<in>set batch. length x = hd (sizes net) \<and> length y = last (sizes net) \<Longrightarrow>
   \<exists>r. sum_gradients batch acc net = Inr r"
proof (induction batch arbitrary: acc)
  case Nil
  then show ?case by simp
next
  case (Cons ex batch)
  obtain x y where ex: "ex = (x, y)" by (cases ex)
  obtain nw nb where acc: "acc = (nw, nb)" by (cases acc)
  from Cons.prems ex have "length x = hd (sizes net)" "length y = last (sizes net)"
    by simp_all
  then obtain g where "fst (backprop x y net) = Inr g"
    using fst_backprop_ok by blast
  moreover obtain dw db where "g = (dw, db)" by (cases g)
  moreover from Cons.prems
  have "\<forall>(x, y)\<in>set batch. length x = hd (sizes net) \<and> length y = last (sizes net)"
    by simp
  from Cons.IH [OF this]
  have "\<exists>r. sum_gradients batch (map2 madd nw dw, map2 vadd nb db) net = Inr r" .
  ultimately show ?case
    using ex acc by simp
qed

lemma update_mini_batch_ok:
  assumes "\<forall>(x, y)\<in>set batch. length x = hd (sizes net) \<and> length y = last (sizes net)"
  shows "\<exists>net'. update_mini_batch batch learning_rate net = (Inr (), net') \<and>
           sizes net' = sizes net"
proof -
  from sum_gradients_ok [OF assms]
  obtain r where
    "sum_gradients batch (map zeros_like_m (weights net), map zeros_like_v (biases net)) net = Inr r"
    by blast
  then show ?thesis
    by (cases r) (simp add: update_mini_batch_def)
qed

lemma run_batches_ok:
  "\<forall>b\<in>set bs. \<forall>(x, y)\<in>set b. length x = hd szs \<and> length y = last szs \<Longrightarrow>
   sizes net = szs \<Longrightarrow>
   \<exists>net'. run_batches bs learning_rate net = (Inr (), net') \<and> sizes net' = szs"
proof (induction bs arbitrary: net)
  case Nil
  then show ?case by simp
next
  case (Cons b bs)
  from Cons.prems
  have "\<forall>(x, y)\<in>set b. length x = hd (sizes net) \<and> length y = last (sizes net)"
    by simp
  from update_mini_batch_ok [OF this, of learning_rate]
  obtain net1 where u: "update_mini_batch b learning_rate net = (Inr (), net1)"
    and s: "sizes net1 = szs"
    using Cons.prems(2) by auto
  from Cons.prems(1)
  have "\<forall>b\<in>set bs. \<forall>(x, y)\<in>set b. length x = hd szs \<and> length y = last szs"
    by simp
  from Cons.IH [OF this s] u show ?case
    by simp
qed

lemma mini_batches_nonempty:
  assumes "0 < k" and "b \<in> set (mini_batches k xs)"
  shows "b \<noteq> []"
proof -
  from assms(2) obtain j where j: "j < (length xs + k - 1) div k"
    and b: "b = take k (drop (j * k) xs)"
    by (auto simp: mini_batches_def)
  from j have "Suc j * k \<le> (length xs + k - 1) div k * k"
    by (intro mult_le_mono1) simp
  also have "\<dots> \<le> length xs + k - 1"
    by (rule div_times_less_eq_dividend)
  finally have "j * k < length xs"
    using assms(1) by simp
  with assms(1) b show ?thesis
    by simp
qed

lemma concat_take_batches:
  "concat (map (\<lambda>j. take k (drop (j * k) xs)) [0..<m]) = take (m * k) xs"
proof (induction m)
  case 0
  show ?case by simp
next
  case (Suc m)
  have "take (m * k + k) xs = take (m * k) xs @ take k (drop (m * k) xs)"
    by (rule take_add)
  with Suc show ?case
    by (simp add: add.commute)
qed

lemma concat_mini_batches:
  assumes "0 < k"
  shows "concat (mini_batches k xs) = xs"
proof -
  have "(length xs + k - 1) div k * k + (length xs + k - 1) mod k = length xs + k - 1"
    by (rule div_mult_mod_eq)
  moreover have "(length xs + k - 1) mod k < k"
    using assms by simp
  ultimately have "length xs \<le> (length xs + k - 1) div k * k"
    by linarith
  then show ?thesis
    by (simp add: mini_batches_def concat_take_batches)
qed

lemma set_mini_batches: "b \<in> set (mini_batches k xs) \<Longrightarrow> set b \<subseteq> set xs"
  by (auto simp: mini_batches_def dest!: in_set_takeD in_set_dropD)

lemma run_epochs_ok:
  assumes "\<forall>e. set (shuffle e training_set) \<subseteq> set training_set"
    and "\<forall>(x, y)\<in>set training_set. length x = hd szs \<and> length y = last szs"
  shows "sizes net = szs \<Longrightarrow>
         \<exists>net'. run_epochs es shuffle training_set k learning_rate net = (Inr (), net') \<and>
           sizes net' = szs"
proof (induction es arbitrary: net)
  case Nil
  then show ?case by simp
next
  case (Cons e es)
  have "\<forall>b\<in>set (mini_batches k (shuffle e training_set)).
          \<forall>(x, y)\<in>set b. length x = hd szs \<and> length y = last szs"
    using assms set_mini_batches by blast
  from run_batches_ok [OF this Cons.prems, of learning_rate]
  obtain net1 where
    r: "run_batches (mini_batches k (shuffle e training_set)) learning_rate net = (Inr (), net1)"
    and s: "sizes net1 = szs"
    by blast
  from Cons.IH [OF s] r show ?case
    by simp
qed

subsection \<open>The claims about the engine\<close>

text \<open>
  C5. With valid hyperparameters, examples whose lengths match the input and output
  layer, and every epoch's order a permutation of the training set, \<open>SGD\<close> returns a
  result: one output activation vector per example of the set as it was supplied, in
  the order of the set; the vector at position \<open>i\<close> is the output, for the features of
  example \<open>i\<close>, of the network as the final epoch leaves it.
\<close>

theorem SGD_returns_outputs_in_input_order:
  assumes "training_set \<noteq> []" and "1 \<le> mini_batch_size"
    and "mini_batch_size \<le> int (length training_set)" and "0 < learning_rate"
    and "\<forall>(x, y)\<in>set training_set. length x = hd (sizes net) \<and> length y = last (sizes net)"
    and "\<forall>e. mset (shuffle e training_set) = mset training_set"
  shows "\<exists>res net'.
           SGD training_set epochs mini_batch_size learning_rate shuffle net = (Inr res, net') \<and>
           net' = snd (run_epochs [1..<Suc (nat epochs)] shuffle training_set
                         (nat mini_batch_size) learning_rate net) \<and>
           length res = length training_set \<and>
           (\<forall>i<length training_set.
              res ! i = fst (feedforward (fst (training_set ! i)) net'))"
proof -
  have sub: "\<forall>e. set (shuffle e training_set) \<subseteq> set training_set"
    using assms(6) by (metis mset_eq_setD order_refl)
  have "sizes net = sizes net" ..
  from run_epochs_ok [where szs = "sizes net" and net = net and shuffle = shuffle
                        and training_set = training_set, OF sub assms(5) this]
  obtain net' where
    r: "run_epochs [1..<Suc (nat epochs)] shuffle training_set (nat mini_batch_size)
          learning_rate net = (Inr (), net')"
    by blast
  let ?res = "map (\<lambda>(x, y). fst (feedforward x net')) training_set"
  from assms(1-4) r
  have "SGD training_set epochs mini_batch_size learning_rate shuffle net = (Inr ?res, net')"
    by (simp add: SGD_def)
  moreover have "\<forall>i<length training_set.
      ?res ! i = fst (feedforward (fst (training_set ! i)) net')"
    by (simp add: split_beta)
  ultimately show ?thesis
    using r by simp
qed

theorem SGD_returns_outputs_in_input_order_witness:
  "\<exists>res net'.
     SGD [([1, 0], [1]), ([0, 1], [0])] 1 1 3 (\<lambda>e xs. rev xs) (Network [2, 1] (\<lambda>k. 0))
       = (Inr res, net') \<and>
     net' = snd (run_epochs [1..<Suc (nat 1)] (\<lambda>e xs. rev xs) [([1, 0], [1]), ([0, 1], [0])]
                   (nat 1) 3 (Network [2, 1] (\<lambda>k. 0))) \<and>
     length res = length [([1, 0::real], [1::real]), ([0, 1], [0])] \<and>
     (\<forall>i<length [([1, 0::real], [1::real]), ([0, 1], [0])].
        res ! i = fst (feedforward (fst ([([1, 0], [1::real]), ([0, 1], [0])] ! i)) net'))"
proof -
  have h1: "[([1, 0::real], [1::real]), ([0, 1], [0])] \<noteq> []"
    by simp
  have h2: "(1::int) \<le> 1"
    by simp
  have h3: "(1::int) \<le> int (length [([1, 0::real], [1::real]), ([0, 1], [0])])"
    by simp
  have h4: "(0::real) < 3"
    by simp
  have h5: "\<forall>(x, y)\<in>set [([1, 0::real], [1::real]), ([0, 1], [0])].
              length x = hd (sizes (Network [2, 1] (\<lambda>k. 0))) \<and>
              length y = last (sizes (Network [2, 1] (\<lambda>k. 0)))"
    by (simp add: Network_def)
  have h6: "\<forall>e::nat. mset ((\<lambda>e xs. rev xs) e [([1, 0::real], [1::real]), ([0, 1], [0])])
              = mset [([1, 0::real], [1::real]), ([0, 1], [0])]"
    by simp
  show ?thesis
    by (rule SGD_returns_outputs_in_input_order
              [where training_set = "[([1, 0], [1]), ([0, 1], [0])]" and epochs = 1
                 and mini_batch_size = 1 and learning_rate = 3
                 and shuffle = "\<lambda>e xs. rev xs" and net = "Network [2, 1] (\<lambda>k. 0)",
               OF h1 h2 h3 h4 h5 h6])
qed

text \<open>
  C6. With an empty training set, a mini-batch size below 1 or above the size of the
  training set, or a learning rate that is not positive, \<open>SGD\<close> returns \<open>ConfigError\<close>
  and leaves the network as it was: no epoch has run and no Parameter is changed.
\<close>

theorem SGD_rejects_invalid_config:
  assumes "training_set = [] \<or> mini_batch_size < 1
             \<or> int (length training_set) < mini_batch_size \<or> learning_rate \<le> 0"
  shows "SGD training_set epochs mini_batch_size learning_rate shuffle net
           = (Inl ConfigError, net)"
  using assms by (auto simp: SGD_def)

theorem SGD_rejects_invalid_config_witness:
  "SGD [([1, 0], [1]), ([0, 1], [0])] 30 0 3 (\<lambda>e xs. xs) (Network [2, 1] (\<lambda>k. 0))
     = (Inl ConfigError, Network [2, 1] (\<lambda>k. 0)) \<and>
   SGD [([1, 0], [1]), ([0, 1], [0])] 30 3 3 (\<lambda>e xs. xs) (Network [2, 1] (\<lambda>k. 0))
     = (Inl ConfigError, Network [2, 1] (\<lambda>k. 0)) \<and>
   SGD [([1, 0], [1]), ([0, 1], [0])] 30 1 (- 1) (\<lambda>e xs. xs) (Network [2, 1] (\<lambda>k. 0))
     = (Inl ConfigError, Network [2, 1] (\<lambda>k. 0)) \<and>
   SGD [] 30 10 3 (\<lambda>e xs. xs) (Network [2, 1] (\<lambda>k. 0))
     = (Inl ConfigError, Network [2, 1] (\<lambda>k. 0))"
proof (intro conjI)
  show "SGD [([1, 0], [1]), ([0, 1], [0])] 30 0 3 (\<lambda>e xs. xs) (Network [2, 1] (\<lambda>k. 0))
     = (Inl ConfigError, Network [2, 1] (\<lambda>k. 0))"
    by (rule SGD_rejects_invalid_config) simp
  show "SGD [([1, 0], [1]), ([0, 1], [0])] 30 3 3 (\<lambda>e xs. xs) (Network [2, 1] (\<lambda>k. 0))
     = (Inl ConfigError, Network [2, 1] (\<lambda>k. 0))"
    by (rule SGD_rejects_invalid_config) simp
  show "SGD [([1, 0], [1]), ([0, 1], [0])] 30 1 (- 1) (\<lambda>e xs. xs) (Network [2, 1] (\<lambda>k. 0))
     = (Inl ConfigError, Network [2, 1] (\<lambda>k. 0))"
    by (rule SGD_rejects_invalid_config) simp
  show "SGD [] 30 10 3 (\<lambda>e xs. xs) (Network [2, 1] (\<lambda>k. 0))
     = (Inl ConfigError, Network [2, 1] (\<lambda>k. 0))"
    by (rule SGD_rejects_invalid_config) simp
qed

text \<open>
  C7. For a network with valid layer sizes, \<open>backprop x y\<close> fails with \<open>ShapeMismatch\<close>
  exactly when the length of \<open>x\<close> differs from \<open>sizes[0]\<close> or the length of \<open>y\<close>
  differs from \<open>sizes[-1]\<close>.
\<close>

theorem backprop_ShapeMismatch_iff:
  assumes "valid_sizes (sizes net)"
  shows "(fst (backprop x y net) = Inl ShapeMismatch)
           = (length x \<noteq> sizes net ! 0 \<or> length y \<noteq> last (sizes net))"
proof -
  from assms have "sizes net \<noteq> []"
    by (auto simp: valid_sizes_def)
  then have "hd (sizes net) = sizes net ! 0"
    by (rule hd_conv_nth)
  then show ?thesis
    by (simp add: backprop_def Let_def)
qed

theorem backprop_ShapeMismatch_iff_witness:
  "valid_sizes (sizes (Network [2, 1] (\<lambda>k. 0))) \<and>
   fst (backprop [1] [1] (Network [2, 1] (\<lambda>k. 0))) = Inl ShapeMismatch \<and>
   fst (backprop [1, 0] [1, 1] (Network [2, 1] (\<lambda>k. 0))) = Inl ShapeMismatch \<and>
   fst (backprop [1, 0] [1] (Network [2, 1] (\<lambda>k. 0))) \<noteq> Inl ShapeMismatch"
proof -
  have v: "valid_sizes (sizes (Network [2, 1] (\<lambda>k. 0)))"
    by (simp add: Network_def valid_sizes_def)
  have s: "sizes (Network [2, 1] (\<lambda>k. 0)) = [2, 1]"
    by (simp add: Network_def)
  have "fst (backprop [1] [1] (Network [2, 1] (\<lambda>k. 0))) = Inl ShapeMismatch"
    unfolding backprop_ShapeMismatch_iff [OF v] s by simp
  moreover have "fst (backprop [1, 0] [1, 1] (Network [2, 1] (\<lambda>k. 0))) = Inl ShapeMismatch"
    unfolding backprop_ShapeMismatch_iff [OF v] s by simp
  moreover have "fst (backprop [1, 0] [1] (Network [2, 1] (\<lambda>k. 0))) \<noteq> Inl ShapeMismatch"
    unfolding backprop_ShapeMismatch_iff [OF v] s by simp
  ultimately show ?thesis
    using v by (intro conjI)
qed

text \<open>
  C8. For valid layer sizes, every state of the network that training can reach (after
  construction, and after any \<open>feedforward\<close>, \<open>backprop\<close>, \<open>update_mini_batch\<close> or \<open>SGD\<close>
  from such a state) still has the layer sizes it was constructed with and satisfies
  the shape invariant: weight matrix \<open>l\<close> has shape \<open>(sizes[l], sizes[l-1])\<close> and bias
  vector \<open>l\<close> has \<open>sizes[l]\<close> entries, for every layer \<open>l\<close>.
\<close>

theorem shapes_never_change:
  assumes "valid_sizes szs" and "reachable szs net"
  shows "sizes net = szs \<and> shape_invariant net"
proof
  from reachable_net_ok [OF assms] have ok: "net_ok szs net" .
  then show "sizes net = szs"
    by (simp add: net_ok_def)
  from ok show "shape_invariant net"
    by (rule net_ok_shape_invariant)
qed

theorem shapes_never_change_witness:
  "valid_sizes [2, 3, 1] \<and>
   reachable [2, 3, 1]
     (snd (SGD [([1, 0], [1]), ([0, 1], [0])] 2 1 3 (\<lambda>e xs. rev xs)
        (snd (update_mini_batch [([1, 1], [0])] 3 (Network [2, 3, 1] (\<lambda>k. real k)))))) \<and>
   (sizes
     (snd (SGD [([1, 0], [1]), ([0, 1], [0])] 2 1 3 (\<lambda>e xs. rev xs)
        (snd (update_mini_batch [([1, 1], [0])] 3 (Network [2, 3, 1] (\<lambda>k. real k)))))) = [2, 3, 1] \<and>
    shape_invariant
     (snd (SGD [([1, 0], [1]), ([0, 1], [0])] 2 1 3 (\<lambda>e xs. rev xs)
        (snd (update_mini_batch [([1, 1], [0])] 3 (Network [2, 3, 1] (\<lambda>k. real k)))))))"
proof -
  have v: "valid_sizes [2, 3, 1]"
    by (simp add: valid_sizes_def)
  have r: "reachable [2, 3, 1]
     (snd (SGD [([1, 0], [1]), ([0, 1], [0])] 2 1 3 (\<lambda>e xs. rev xs)
        (snd (update_mini_batch [([1, 1], [0])] 3 (Network [2, 3, 1] (\<lambda>k. real k))))))"
    by (intro reachable.intros)
  show ?thesis
    by (rule conjI [OF v conjI [OF r shapes_never_change [OF v r]]])
qed

end
